theory Spec2Isabelle
  imports Main
begin

section \<open>Values, completions and the recording span\<close>

text \<open>
  The tracing module (\<^verbatim>\<open>lib/tracing.ts\<close>) wraps an operation in an OpenTelemetry span.
  The operation is arbitrary JavaScript: it may return any value, throw any value, or
  return a native promise that is settled later. Values are modelled by the distinctions
  the module itself makes: whether a value is a native \<^verbatim>\<open>Promise\<close>
  (\<^verbatim>\<open>result instanceof Promise\<close>), and what reading its \<^verbatim>\<open>message\<close> property does.
  Values a promise can be fulfilled with are never thenable (resolving a promise with a
  thenable adopts its state instead), so they have a type of their own.
\<close>

datatype plain =
    VUndefined
  | VNull
  | VBool bool
  | VNum int
  | VStr string
  | VError nat string   \<comment> \<open>an \<^verbatim>\<open>Error\<close> instance: object identity and \<^verbatim>\<open>message\<close>\<close>
  | VTypeError string   \<comment> \<open>a \<^verbatim>\<open>TypeError\<close> raised by the runtime itself, with its message\<close>
  | VObject nat         \<comment> \<open>any other object (no \<^verbatim>\<open>message\<close>, no \<^verbatim>\<open>then\<close>): object identity\<close>

datatype jsval =
    Plain plain
  | Thenable nat        \<comment> \<open>a foreign promise-like object: has \<^verbatim>\<open>then\<close>, is not a native Promise\<close>
  | PromiseRef nat      \<comment> \<open>a native Promise: its address in the promise store\<close>

text \<open>How a call completes: it returns a value or throws one.\<close>

datatype 'a completion = Returns 'a | Throws jsval

text \<open>
  \<^verbatim>\<open>error.message\<close>: reading a property of \<^verbatim>\<open>undefined\<close> or \<^verbatim>\<open>null\<close> throws a
  TypeError; an Error instance yields its message; every other value has no such
  property and yields \<^verbatim>\<open>undefined\<close>.
\<close>

fun get_message :: "jsval \<Rightarrow> jsval completion" where
  "get_message (Plain VUndefined) =
     Throws (Plain (VTypeError ''Cannot read properties of undefined (reading message)''))"
| "get_message (Plain VNull) =
     Throws (Plain (VTypeError ''Cannot read properties of null (reading message)''))"
| "get_message (Plain (VError i m)) = Returns (Plain (VStr m))"
| "get_message (Plain (VTypeError m)) = Returns (Plain (VStr m))"
| "get_message v = Returns (Plain VUndefined)"

text \<open>
  An attribute set is a \<^verbatim>\<open>Record<string, string | number | boolean>\<close>: keys in insertion
  order. Numbers are carried through unchanged and never inspected, so they are
  integers here.
\<close>

datatype attr_value = AStr string | ANum int | ABool bool

type_synonym attrs = "(string \<times> attr_value) list"

datatype status_code = UNSET | OK | ERROR

text \<open>
  The provider's span is seen through the calls made on it, in order:
  \<^verbatim>\<open>setAttributes\<close>, \<^verbatim>\<open>setStatus({code, message?})\<close>, \<^verbatim>\<open>recordException\<close>, \<^verbatim>\<open>end\<close>.
\<close>

datatype span_call =
    SetAttributes attrs
  | SetStatus status_code "jsval option"
  | RecordException jsval
  | End

record span =
  span_name :: string
  span_calls :: "span_call list"

section \<open>Promises and the microtask queue\<close>

datatype settlement = Pending | Fulfilled plain | Rejected jsval

text \<open>
  The two arrow functions \<^verbatim>\<open>withSpan\<close> passes to \<^verbatim>\<open>then\<close> and \<^verbatim>\<open>catch\<close>, as closures
  over the span they capture.
\<close>

datatype fulfil_handler = ThenClosure nat
datatype reject_handler = CatchClosure nat

record reaction =
  on_fulfilled :: "fulfil_handler option"
  on_rejected :: "reject_handler option"
  derived :: nat

record promise =
  state :: settlement
  reactions :: "reaction list"

record world =
  spans :: "span list"
  promises :: "promise list"
  jobs :: "(reaction \<times> settlement) list"

definition empty_world :: world where
  "empty_world = \<lparr>spans = [], promises = [], jobs = []\<rparr>"

text \<open>A method call on the span object \<open>sp\<close>.\<close>

definition span_call :: "nat \<Rightarrow> span_call \<Rightarrow> world \<Rightarrow> world" where
  "span_call sp c w =
     w\<lparr>spans := (spans w)[sp := (spans w ! sp)\<lparr>span_calls := span_calls (spans w ! sp) @ [c]\<rparr>]\<rparr>"

text \<open>
  \<^verbatim>\<open>tracer.startActiveSpan(name, callback)\<close>: creates the span, runs the callback
  with it and returns what the callback returns (or throws).
\<close>

definition startActiveSpan ::
  "string \<Rightarrow> (nat \<Rightarrow> world \<Rightarrow> 'a \<times> world) \<Rightarrow> world \<Rightarrow> 'a \<times> world" where
  "startActiveSpan name callback w =
     callback (length (spans w))
       (w\<lparr>spans := spans w @ [\<lparr>span_name = name, span_calls = []\<rparr>]\<rparr>)"

text \<open>\<^verbatim>\<open>new Promise\<close> in a given state.\<close>

definition new_promise :: "settlement \<Rightarrow> world \<Rightarrow> nat \<times> world" where
  "new_promise s w =
     (length (promises w), w\<lparr>promises := promises w @ [\<lparr>state = s, reactions = []\<rparr>]\<rparr>)"

text \<open>
  \<^verbatim>\<open>p.then(onFulfilled, onRejected)\<close>: a new pending promise is derived; the reaction
  waits on \<open>p\<close> while \<open>p\<close> is pending and is queued as a microtask when \<open>p\<close> is settled
  already. \<^verbatim>\<open>p.catch(f)\<close> is \<^verbatim>\<open>p.then(undefined, f)\<close>.
\<close>

definition promise_then ::
  "nat \<Rightarrow> fulfil_handler option \<Rightarrow> reject_handler option \<Rightarrow> world \<Rightarrow> nat \<times> world" where
  "promise_then p onF onR w =
     (let (d, w1) = new_promise Pending w;
          r = \<lparr>on_fulfilled = onF, on_rejected = onR, derived = d\<rparr>
      in case state (promises w1 ! p) of
           Pending \<Rightarrow>
             (d, w1\<lparr>promises := (promises w1)[p := (promises w1 ! p)
                       \<lparr>reactions := reactions (promises w1 ! p) @ [r]\<rparr>]\<rparr>)
         | s \<Rightarrow> (d, w1\<lparr>jobs := jobs w1 @ [(r, s)]\<rparr>))"

definition promise_catch :: "nat \<Rightarrow> reject_handler \<Rightarrow> world \<Rightarrow> nat \<times> world" where
  "promise_catch p onR w = promise_then p None (Some onR) w"

text \<open>
  Settling a pending promise queues its reactions; settling a settled promise does
  nothing.
\<close>

definition settle :: "nat \<Rightarrow> settlement \<Rightarrow> world \<Rightarrow> world" where
  "settle p s w =
     (case state (promises w ! p) of
        Pending \<Rightarrow>
          w\<lparr>promises := (promises w)[p := \<lparr>state = s, reactions = []\<rparr>],
            jobs := jobs w @ map (\<lambda>r. (r, s)) (reactions (promises w ! p))\<rparr>
      | _ \<Rightarrow> w)"

section \<open>The span runner\<close>

text \<open>
  The function \<^verbatim>\<open>withSpan\<close> passes to \<^verbatim>\<open>.then\<close>: status OK, end, return the value.
\<close>

definition then_handler :: "nat \<Rightarrow> 'a \<Rightarrow> world \<Rightarrow> 'a completion \<times> world" where
  "then_handler sp v w =
     (let w1 = span_call sp (SetStatus OK None) w;
          w2 = span_call sp End w1
      in (Returns v, w2))"

text \<open>
  The function \<^verbatim>\<open>withSpan\<close> passes to \<^verbatim>\<open>.catch\<close>. The argument object of
  \<^verbatim>\<open>setStatus\<close> is built before the call, so when reading \<^verbatim>\<open>error.message\<close> throws,
  the function is left before any call on the span. It never returns normally.
\<close>

definition catch_handler :: "nat \<Rightarrow> jsval \<Rightarrow> world \<Rightarrow> 'a completion \<times> world" where
  "catch_handler sp error w =
     (case get_message error of
        Throws t \<Rightarrow> (Throws t, w)
      | Returns m \<Rightarrow>
          (let w1 = span_call sp (SetStatus ERROR (Some m)) w;
               w2 = span_call sp (RecordException error) w1;
               w3 = span_call sp End w2
           in (Throws error, w3)))"

text \<open>
  \<^verbatim>\<open>withSpan\<close>. An operation is a function of the world it runs in. In the \<^verbatim>\<open>try\<close>
  block only the call of the operation can throw: the provider's span methods and
  \<^verbatim>\<open>then\<close>/\<^verbatim>\<open>catch\<close> do not. The \<^verbatim>\<open>catch\<close> block has the same four statements as the
  function passed to \<^verbatim>\<open>.catch\<close>, and a throw inside it leaves \<^verbatim>\<open>withSpan\<close>.
\<close>

type_synonym operation = "world \<Rightarrow> jsval completion \<times> world"

definition withSpan ::
  "string \<Rightarrow> operation \<Rightarrow> attrs option \<Rightarrow> world \<Rightarrow> jsval completion \<times> world" where
  "withSpan name fn attributes w =
     startActiveSpan name (\<lambda>span w1.
       let w2 = (case attributes of
                   Some a \<Rightarrow> span_call span (SetAttributes a) w1
                 | None \<Rightarrow> w1)
       in case fn w2 of
            (Returns result, w3) \<Rightarrow>
              (case result of
                 PromiseRef p \<Rightarrow>
                   (let (d1, w4) = promise_then p (Some (ThenClosure span)) None w3;
                        (d2, w5) = promise_catch d1 (CatchClosure span) w4
                    in (Returns (PromiseRef d2), w5))
               | _ \<Rightarrow>
                   (let w4 = span_call span (SetStatus OK None) w3;
                        w5 = span_call span End w4
                    in (Returns result, w5)))
          | (Throws error, w3) \<Rightarrow>
              (case get_message error of
                 Throws t \<Rightarrow> (Throws t, w3)
               | Returns m \<Rightarrow>
                   (let w4 = span_call span (SetStatus ERROR (Some m)) w3;
                        w5 = span_call span (RecordException error) w4;
                        w6 = span_call span End w5
                    in (Throws error, w6)))) w"

text \<open>
  One microtask: a reaction runs its handler on the settlement (or passes the
  settlement through when it has no handler for it) and settles the derived promise
  with the handler's completion. The handler of \<^verbatim>\<open>.then\<close> returns the value it was
  given, a value a promise was fulfilled with.
\<close>

definition complete_derived :: "nat \<Rightarrow> plain completion \<times> world \<Rightarrow> world" where
  "complete_derived d cw =
     (case cw of
        (Returns v, w) \<Rightarrow> settle d (Fulfilled v) w
      | (Throws e, w) \<Rightarrow> settle d (Rejected e) w)"

fun run_job :: "reaction \<times> settlement \<Rightarrow> world \<Rightarrow> world" where
  "run_job (r, Fulfilled v) w =
     (case on_fulfilled r of
        None \<Rightarrow> settle (derived r) (Fulfilled v) w
      | Some (ThenClosure sp) \<Rightarrow> complete_derived (derived r) (then_handler sp v w))"
| "run_job (r, Rejected e) w =
     (case on_rejected r of
        None \<Rightarrow> settle (derived r) (Rejected e) w
      | Some (CatchClosure sp) \<Rightarrow> complete_derived (derived r) (catch_handler sp e w))"
| "run_job (r, Pending) w = w"

text \<open>The microtask queue: the oldest job first, \<open>n\<close> jobs at most.\<close>

definition run_next :: "world \<Rightarrow> world" where
  "run_next w = (case jobs w of [] \<Rightarrow> w | j # js \<Rightarrow> run_job j (w\<lparr>jobs := js\<rparr>))"

primrec run_microtasks :: "nat \<Rightarrow> world \<Rightarrow> world" where
  "run_microtasks 0 w = w"
| "run_microtasks (Suc n) w = run_microtasks n (run_next w)"

section \<open>Naming and attribute helpers\<close>

text \<open>
  A callable has a \<^verbatim>\<open>name\<close> (the empty string for an anonymous function) and a body.
\<close>

record callable =
  fn_name :: string
  fn_body :: "jsval list \<Rightarrow> operation"

record trace_options =
  prefix :: "string option"
  attributes :: "attrs option"

text \<open>\<^verbatim>\<open>a || b\<close> on strings: the empty string is falsy.\<close>

definition or_else :: "string \<Rightarrow> string \<Rightarrow> string" where
  "or_else a b = (if a = [] then b else a)"

text \<open>
  The local constant \<^verbatim>\<open>spanName\<close> of the function \<^verbatim>\<open>autoTrace\<close> returns. The test
  \<^verbatim>\<open>options?.prefix ? ... : ...\<close> is on truthiness: \<^verbatim>\<open>undefined\<close> and the empty string are
  falsy.
\<close>

definition spanName :: "callable \<Rightarrow> trace_options option \<Rightarrow> string" where
  "spanName fn options =
     (case (case options of None \<Rightarrow> None | Some opts \<Rightarrow> prefix opts) of
        Some p \<Rightarrow>
          (if p \<noteq> [] then p @ ''.'' @ or_else (fn_name fn) ''anonymous''
           else or_else (fn_name fn) ''anonymous'')
      | None \<Rightarrow> or_else (fn_name fn) ''anonymous'')"

definition autoTrace :: "callable \<Rightarrow> trace_options option \<Rightarrow> jsval list \<Rightarrow> operation" where
  "autoTrace fn options args w =
     withSpan (spanName fn options) (fn_body fn args)
       (case options of None \<Rightarrow> None | Some opts \<Rightarrow> attributes opts) w"

text \<open>
  The attribute object \<^verbatim>\<open>db.query\<close> builds from its optional statement. The test
  \<^verbatim>\<open>statement ? ... : ...\<close> is on truthiness: \<^verbatim>\<open>undefined\<close> and the empty string are falsy.
\<close>

definition db_query_attributes :: "string option \<Rightarrow> attrs" where
  "db_query_attributes statement =
     (case statement of
        None \<Rightarrow> [(''db.system'', AStr ''postgresql'')]
      | Some s \<Rightarrow>
          (if s \<noteq> []
           then [(''db.system'', AStr ''postgresql''), (''db.statement'', AStr s)]
           else [(''db.system'', AStr ''postgresql'')]))"

definition db_query :: "operation \<Rightarrow> string option \<Rightarrow> world \<Rightarrow> jsval completion \<times> world" where
  "db_query operation statement w =
     withSpan ''db.query'' operation (Some (db_query_attributes statement)) w"

text \<open>
  \<^verbatim>\<open>new URL(url).hostname\<close> is the platform's URL parser. It is a parameter here:
  \<open>hostname url = None\<close> when the constructor throws its TypeError on a malformed
  URL, and the host name otherwise. The attribute object is built before \<^verbatim>\<open>withSpan\<close>
  is called, so the TypeError leaves \<^verbatim>\<open>api.call\<close> at once. The parameter \<^verbatim>\<open>method\<close>
  defaults to \<^verbatim>\<open>'GET'\<close>.
\<close>

definition api_call_attributes ::
  "(string \<Rightarrow> string option) \<Rightarrow> string \<Rightarrow> string \<Rightarrow> attrs completion" where
  "api_call_attributes hostname url method =
     (case hostname url of
        None \<Rightarrow> Throws (Plain (VTypeError ''Invalid URL''))
      | Some h \<Rightarrow>
          Returns [(''http.method'', AStr method), (''http.url'', AStr url),
                   (''net.peer.name'', AStr h)])"

definition api_call ::
  "(string \<Rightarrow> string option) \<Rightarrow> operation \<Rightarrow> string \<Rightarrow> string option \<Rightarrow> world
     \<Rightarrow> jsval completion \<times> world" where
  "api_call hostname operation url method_arg w =
     (let method = (case method_arg of None \<Rightarrow> ''GET'' | Some m \<Rightarrow> m)
      in case api_call_attributes hostname url method of
           Throws e \<Rightarrow> (Throws e, w)
         | Returns a \<Rightarrow> withSpan ''external.api.call'' operation (Some a) w)"

text \<open>
  The attribute object of \<^verbatim>\<open>component.process\<close>: two conditional spreads. Spreading
  \<^verbatim>\<open>undefined\<close>, \<^verbatim>\<open>false\<close> or the empty string adds no key.
\<close>

definition process_attributes :: "string option \<Rightarrow> int option \<Rightarrow> attrs" where
  "process_attributes type recordCount =
     (case type of
        None \<Rightarrow> []
      | Some t \<Rightarrow> (if t \<noteq> [] then [(''processing.type'', AStr t)] else [])) @
     (case recordCount of
        None \<Rightarrow> []
      | Some n \<Rightarrow> [(''processing.record_count'', ANum n)])"

definition component_load ::
  "string \<Rightarrow> operation \<Rightarrow> attrs option \<Rightarrow> world \<Rightarrow> jsval completion \<times> world" where
  "component_load name operation attrs w = withSpan (name @ ''.load'') operation attrs w"

definition component_fetch ::
  "string \<Rightarrow> operation \<Rightarrow> attrs option \<Rightarrow> world \<Rightarrow> jsval completion \<times> world" where
  "component_fetch name operation attrs w = withSpan (name @ ''.fetch'') operation attrs w"

definition component_process ::
  "operation \<Rightarrow> string option \<Rightarrow> int option \<Rightarrow> world \<Rightarrow> jsval completion \<times> world" where
  "component_process operation type recordCount w =
     withSpan ''data.processing'' operation (Some (process_attributes type recordCount)) w"

section \<open>Operations of the scenarios\<close>

text \<open>
  \<^verbatim>\<open>() => v\<close>, \<^verbatim>\<open>() => { throw e }\<close>, and an operation that returns a new native promise
  (an \<^verbatim>\<open>async\<close> function, \<^verbatim>\<open>Promise.resolve(v)\<close>, \<^verbatim>\<open>Promise.reject(e)\<close>).
\<close>

definition returning :: "jsval \<Rightarrow> operation" where
  "returning v w = (Returns v, w)"

definition throwing :: "jsval \<Rightarrow> operation" where
  "throwing e w = (Throws e, w)"

definition returning_promise :: "settlement \<Rightarrow> operation" where
  "returning_promise s w = (case new_promise s w of (p, w1) \<Rightarrow> (Returns (PromiseRef p), w1))"

definition foo_callable :: callable where
  "foo_callable = \<lparr>fn_name = ''foo'', fn_body = (\<lambda>args. returning (Plain VUndefined))\<rparr>"

text \<open>A URL parser that knows one URL, to run \<^verbatim>\<open>api.call\<close> on.\<close>

definition sample_hostname :: "string \<Rightarrow> string option" where
  "sample_hostname url =
     (if url = ''https://api.example.com/status'' then Some ''api.example.com'' else None)"

section \<open>Notions for stating the properties\<close>

text \<open>\<^verbatim>\<open>v instanceof Promise\<close>.\<close>

fun instanceof_Promise :: "jsval \<Rightarrow> bool" where
  "instanceof_Promise (PromiseRef p) = True"
| "instanceof_Promise v = False"

text \<open>
  The world in which \<^verbatim>\<open>withSpan\<close> calls the operation: the span has been created
  and, when attributes were passed, has received them.
\<close>

definition entered :: "string \<Rightarrow> attrs option \<Rightarrow> world \<Rightarrow> world" where
  "entered name atts w =
     (let w1 = w\<lparr>spans := spans w @ [\<lparr>span_name = name, span_calls = []\<rparr>]\<rparr>
      in case atts of
           Some a \<Rightarrow> span_call (length (spans w)) (SetAttributes a) w1
         | None \<Rightarrow> w1)"

text \<open>
  The operation is arbitrary code and could reach the active span through the
  provider. \<open>untouched sp u w\<close> says that between the worlds \<open>u\<close> and \<open>w\<close> nothing was
  called on the span \<open>sp\<close>.
\<close>

definition untouched :: "nat \<Rightarrow> world \<Rightarrow> world \<Rightarrow> bool" where
  "untouched sp u w = (sp < length (spans w) \<and> spans w ! sp = spans u ! sp)"

text \<open>The calls a span has received from \<^verbatim>\<open>withSpan\<close> before the operation starts.\<close>

definition attribute_calls :: "attrs option \<Rightarrow> span_call list" where
  "attribute_calls atts = (case atts of None \<Rightarrow> [] | Some a \<Rightarrow> [SetAttributes a])"

section \<open>Basic facts\<close>

lemma spans_span_call [simp]:
  "spans (span_call sp c w) =
     (spans w)[sp := (spans w ! sp)\<lparr>span_calls := span_calls (spans w ! sp) @ [c]\<rparr>]"
  by (simp add: span_call_def)

lemma promises_span_call [simp]: "promises (span_call sp c w) = promises w"
  by (simp add: span_call_def)

lemma jobs_span_call [simp]: "jobs (span_call sp c w) = jobs w"
  by (simp add: span_call_def)

lemma entered_span:
  "spans (entered name atts w) ! length (spans w) =
     \<lparr>span_name = name, span_calls = attribute_calls atts\<rparr>"
  by (simp add: entered_def attribute_calls_def Let_def split: option.split)

lemma entered_rest:
  "length (spans (entered name atts w)) = Suc (length (spans w))
   \<and> promises (entered name atts w) = promises w
   \<and> jobs (entered name atts w) = jobs w"
  by (simp add: entered_def Let_def split: option.split)

text \<open>\<^verbatim>\<open>withSpan\<close> calls the operation once, in the world \<open>entered name atts w\<close>.\<close>

lemma withSpan_enters:
  "withSpan name fn atts w =
     (case fn (entered name atts w) of
        (Returns result, w3) \<Rightarrow>
          (case result of
             PromiseRef p \<Rightarrow>
               (let (d1, w4) = promise_then p (Some (ThenClosure (length (spans w)))) None w3;
                    (d2, w5) = promise_catch d1 (CatchClosure (length (spans w))) w4
                in (Returns (PromiseRef d2), w5))
           | _ \<Rightarrow>
               (Returns result,
                span_call (length (spans w)) End
                  (span_call (length (spans w)) (SetStatus OK None) w3)))
      | (Throws error, w3) \<Rightarrow>
          (case get_message error of
             Throws t \<Rightarrow> (Throws t, w3)
           | Returns m \<Rightarrow>
               (Throws error,
                span_call (length (spans w)) End
                  (span_call (length (spans w)) (RecordException error)
                    (span_call (length (spans w)) (SetStatus ERROR (Some m)) w3)))))"
  by (simp add: withSpan_def startActiveSpan_def entered_def Let_def
      split: option.split prod.split completion.split jsval.split)

lemma spans_promise_then [simp]: "spans (snd (promise_then p f r w)) = spans w"
  by (simp add: promise_then_def new_promise_def Let_def split: settlement.split)

lemma fst_promise_then [simp]: "fst (promise_then p f r w) = length (promises w)"
  by (simp add: promise_then_def new_promise_def Let_def split: settlement.split)

lemma length_promise_then [simp]:
  "length (promises (snd (promise_then p f r w))) = Suc (length (promises w))"
  by (simp add: promise_then_def new_promise_def Let_def split: settlement.split)

text \<open>With an empty queue nothing runs; fuel adds up.\<close>

lemma run_microtasks_idle: "jobs u = [] \<Longrightarrow> run_microtasks n u = u"
  by (induction n) (simp_all add: run_next_def)

lemma run_microtasks_add: "run_microtasks (m + n) u = run_microtasks n (run_microtasks m u)"
  by (induction m arbitrary: u) simp_all

lemma run_microtasks_enough:
  assumes "jobs (run_microtasks m u) = []" and "m \<le> n"
  shows "run_microtasks n u = run_microtasks m u"
proof -
  from \<open>m \<le> n\<close> obtain k where "n = m + k"
    using le_Suc_ex by blast
  then show ?thesis
    using assms(1) by (simp add: run_microtasks_add run_microtasks_idle)
qed

text \<open>A plain value returned by the operation, on the empty world.\<close>

lemma withSpan_returning_plain:
  "withSpan name (returning (Plain v)) atts empty_world =
     (Returns (Plain v),
      \<lparr>spans = [\<lparr>span_name = name,
                 span_calls = attribute_calls atts @ [SetStatus OK None, End]\<rparr>],
       promises = [], jobs = []\<rparr>)"
  by (simp add: withSpan_def returning_def startActiveSpan_def empty_world_def
      then_handler_def attribute_calls_def split: option.split)

text \<open>
  The world \<^verbatim>\<open>withSpan\<close> leaves when the operation returns a pending native promise
  \<open>p\<close>: two promises are derived, the first by \<^verbatim>\<open>.then\<close> and the second, which is
  returned, by \<^verbatim>\<open>.catch\<close>; nothing else changes.
\<close>

lemma withSpan_promise_world:
  assumes "fn (entered name atts w) = (Returns (PromiseRef p), w')"
      and "p < length (promises w')"
      and "state (promises w' ! p) = Pending"
  shows "withSpan name fn atts w =
           (Returns (PromiseRef (Suc (length (promises w')))),
            w'\<lparr>promises :=
                 (promises w')[p := (promises w' ! p)\<lparr>reactions := reactions (promises w' ! p) @
                     [\<lparr>on_fulfilled = Some (ThenClosure (length (spans w))), on_rejected = None,
                       derived = length (promises w')\<rparr>]\<rparr>] @
                 [\<lparr>state = Pending,
                   reactions = [\<lparr>on_fulfilled = None,
                                 on_rejected = Some (CatchClosure (length (spans w))),
                                 derived = Suc (length (promises w'))\<rparr>]\<rparr>,
                  \<lparr>state = Pending, reactions = []\<rparr>]\<rparr>)"
  using assms
  by (simp add: withSpan_enters promise_then_def promise_catch_def new_promise_def Let_def
      nth_append list_update_append)

section \<open>The span runner: where it keeps its contract\<close>

text \<open>
  A synchronous throw of a value whose \<^verbatim>\<open>message\<close> can be read: status ERROR with that
  message, the exception recorded, the span ended once, the same value thrown again.
\<close>

lemma withSpan_throw_recorded:
  assumes "fn (entered name atts w) = (Throws e, w')"
      and "untouched (length (spans w)) (entered name atts w) w'"
      and "get_message e = Returns m"
  shows "withSpan name fn atts w =
           (Throws e,
            span_call (length (spans w)) End
              (span_call (length (spans w)) (RecordException e)
                (span_call (length (spans w)) (SetStatus ERROR (Some m)) w')))
         \<and> spans (snd (withSpan name fn atts w)) ! length (spans w) =
             \<lparr>span_name = name,
              span_calls = attribute_calls atts @
                [SetStatus ERROR (Some m), RecordException e, End]\<rparr>"
  using assms
  by (simp add: withSpan_enters catch_handler_def untouched_def entered_span)

text \<open>
  While the promise the operation returned is pending, the span has received nothing
  but its attributes, the promise \<^verbatim>\<open>withSpan\<close> returned is pending, and running
  microtasks changes nothing.
\<close>

lemma withSpan_promise_pending:
  assumes "fn (entered name atts w) = (Returns (PromiseRef p), w')"
      and "untouched (length (spans w)) (entered name atts w) w'"
      and "p < length (promises w')"
      and "state (promises w' ! p) = Pending"
      and "jobs w' = []"
  shows "fst (withSpan name fn atts w) = Returns (PromiseRef (Suc (length (promises w'))))
         \<and> spans (snd (withSpan name fn atts w)) ! length (spans w) =
             \<lparr>span_name = name, span_calls = attribute_calls atts\<rparr>
         \<and> state (promises (snd (withSpan name fn atts w)) ! Suc (length (promises w'))) = Pending
         \<and> run_microtasks n (snd (withSpan name fn atts w)) = snd (withSpan name fn atts w)"
  using assms
  by (simp add: withSpan_promise_world untouched_def entered_span nth_append
      run_microtasks_idle)

text \<open>
  When that promise is fulfilled with \<open>v\<close>, two microtasks later (and from then on) the
  span has status OK and is ended once, the returned promise is fulfilled with \<open>v\<close>,
  and the queue is empty.
\<close>

lemma withSpan_promise_fulfils_two:
  assumes "fn (entered name atts w) = (Returns (PromiseRef p), w')"
      and "untouched (length (spans w)) (entered name atts w) w'"
      and "p < length (promises w')"
      and "state (promises w' ! p) = Pending"
      and "reactions (promises w' ! p) = []"
      and "jobs w' = []"
      and "wz = run_microtasks 2 (settle p (Fulfilled v) (snd (withSpan name fn atts w)))"
  shows "spans wz ! length (spans w) =
           \<lparr>span_name = name, span_calls = attribute_calls atts @ [SetStatus OK None, End]\<rparr>
         \<and> state (promises wz ! Suc (length (promises w'))) = Fulfilled v
         \<and> jobs wz = []"
  using assms
  by (simp add: withSpan_promise_world numeral_2_eq_2 settle_def run_next_def
      nth_append list_update_append untouched_def entered_span complete_derived_def
      then_handler_def Let_def)

lemma withSpan_promise_fulfils:
  assumes "fn (entered name atts w) = (Returns (PromiseRef p), w')"
      and "untouched (length (spans w)) (entered name atts w) w'"
      and "p < length (promises w')"
      and "state (promises w' ! p) = Pending"
      and "reactions (promises w' ! p) = []"
      and "jobs w' = []"
      and "2 \<le> n"
      and "wz = run_microtasks n (settle p (Fulfilled v) (snd (withSpan name fn atts w)))"
  shows "spans wz ! length (spans w) =
           \<lparr>span_name = name, span_calls = attribute_calls atts @ [SetStatus OK None, End]\<rparr>
         \<and> state (promises wz ! Suc (length (promises w'))) = Fulfilled v
         \<and> jobs wz = []"
proof -
  let ?u = "settle p (Fulfilled v) (snd (withSpan name fn atts w))"
  have two: "spans (run_microtasks 2 ?u) ! length (spans w) =
           \<lparr>span_name = name, span_calls = attribute_calls atts @ [SetStatus OK None, End]\<rparr>
         \<and> state (promises (run_microtasks 2 ?u) ! Suc (length (promises w'))) = Fulfilled v
         \<and> jobs (run_microtasks 2 ?u) = []"
    using assms(1-6) by (rule withSpan_promise_fulfils_two) simp
  then have "run_microtasks n ?u = run_microtasks 2 ?u"
    using \<open>2 \<le> n\<close> by (simp add: run_microtasks_enough)
  with two assms(8) show ?thesis by simp
qed

text \<open>
  When it is rejected with a value whose \<^verbatim>\<open>message\<close> can be read, the span has status
  ERROR with that message, the exception recorded, is ended once, and the returned
  promise is rejected with the same value.
\<close>

lemma withSpan_promise_rejects_two:
  assumes "fn (entered name atts w) = (Returns (PromiseRef p), w')"
      and "untouched (length (spans w)) (entered name atts w) w'"
      and "p < length (promises w')"
      and "state (promises w' ! p) = Pending"
      and "reactions (promises w' ! p) = []"
      and "jobs w' = []"
      and "get_message e = Returns m"
      and "wz = run_microtasks 2 (settle p (Rejected e) (snd (withSpan name fn atts w)))"
  shows "spans wz ! length (spans w) =
           \<lparr>span_name = name,
            span_calls = attribute_calls atts @
              [SetStatus ERROR (Some m), RecordException e, End]\<rparr>
         \<and> state (promises wz ! Suc (length (promises w'))) = Rejected e
         \<and> jobs wz = []"
  using assms
  by (simp add: withSpan_promise_world numeral_2_eq_2 settle_def run_next_def
      nth_append list_update_append untouched_def entered_span complete_derived_def
      catch_handler_def Let_def)

lemma withSpan_promise_rejects:
  assumes "fn (entered name atts w) = (Returns (PromiseRef p), w')"
      and "untouched (length (spans w)) (entered name atts w) w'"
      and "p < length (promises w')"
      and "state (promises w' ! p) = Pending"
      and "reactions (promises w' ! p) = []"
      and "jobs w' = []"
      and "get_message e = Returns m"
      and "2 \<le> n"
      and "wz = run_microtasks n (settle p (Rejected e) (snd (withSpan name fn atts w)))"
  shows "spans wz ! length (spans w) =
           \<lparr>span_name = name,
            span_calls = attribute_calls atts @
              [SetStatus ERROR (Some m), RecordException e, End]\<rparr>
         \<and> state (promises wz ! Suc (length (promises w'))) = Rejected e
         \<and> jobs wz = []"
proof -
  let ?u = "settle p (Rejected e) (snd (withSpan name fn atts w))"
  have two: "spans (run_microtasks 2 ?u) ! length (spans w) =
           \<lparr>span_name = name,
            span_calls = attribute_calls atts @
              [SetStatus ERROR (Some m), RecordException e, End]\<rparr>
         \<and> state (promises (run_microtasks 2 ?u) ! Suc (length (promises w'))) = Rejected e
         \<and> jobs (run_microtasks 2 ?u) = []"
    using assms(1-7) by (rule withSpan_promise_rejects_two) simp
  then have "run_microtasks n ?u = run_microtasks 2 ?u"
    using \<open>2 \<le> n\<close> by (simp add: run_microtasks_enough)
  with two assms(9) show ?thesis by simp
qed

text \<open>
  When it is rejected with \<^verbatim>\<open>undefined\<close> or \<^verbatim>\<open>null\<close>, reading \<^verbatim>\<open>error.message\<close>
  throws: the span receives nothing more, so it is never ended, and the returned
  promise is rejected with the TypeError.
\<close>

lemma withSpan_promise_rejects_nullish:
  assumes "fn (entered name atts w) = (Returns (PromiseRef p), w')"
      and "untouched (length (spans w)) (entered name atts w) w'"
      and "p < length (promises w')"
      and "state (promises w' ! p) = Pending"
      and "reactions (promises w' ! p) = []"
      and "jobs w' = []"
      and "get_message e = Throws t"
      and "wz = run_microtasks 2 (settle p (Rejected e) (snd (withSpan name fn atts w)))"
  shows "spans wz ! length (spans w) = \<lparr>span_name = name, span_calls = attribute_calls atts\<rparr>
         \<and> state (promises wz ! Suc (length (promises w'))) = Rejected t
         \<and> jobs wz = []"
  using assms
  by (simp add: withSpan_promise_world numeral_2_eq_2 settle_def run_next_def
      nth_append list_update_append untouched_def entered_span complete_derived_def
      catch_handler_def Let_def)

section \<open>Properties of the specification\<close>

text \<open>
  C1 (every span is ended exactly once on every path). The code at
  \<^verbatim>\<open>withSpan("x", () => { throw undefined })\<close>: the \<^verbatim>\<open>catch\<close> block reads
  \<^verbatim>\<open>error.message\<close> first, which throws a TypeError, so \<^verbatim>\<open>span.end()\<close> is never
  reached. The span \<^verbatim>\<open>"x"\<close> is ended zero times.
\<close>

theorem withSpan_throw_undefined_span_not_ended:
  "withSpan ''x'' (throwing (Plain VUndefined)) None empty_world =
     (Throws (Plain (VTypeError ''Cannot read properties of undefined (reading message)'')),
      \<lparr>spans = [\<lparr>span_name = ''x'', span_calls = []\<rparr>], promises = [], jobs = []\<rparr>)
   \<and> count_list
        (span_calls (spans (snd (withSpan ''x'' (throwing (Plain VUndefined)) None empty_world)) ! 0))
        End = 0"
  by (simp add: withSpan_def throwing_def startActiveSpan_def empty_world_def
      catch_handler_def)

text \<open>
  C2 (a failure ends the span with status ERROR, and the very value thrown is recorded
  and thrown again). The code at \<^verbatim>\<open>withSpan("x", () => { throw null })\<close>: what
  \<^verbatim>\<open>withSpan\<close> throws is a TypeError, not \<^verbatim>\<open>null\<close>, and the span has received no
  status and no exception.
\<close>

theorem withSpan_throw_null_substitutes_error:
  "fst (withSpan ''x'' (throwing (Plain VNull)) None empty_world) =
     Throws (Plain (VTypeError ''Cannot read properties of null (reading message)''))
   \<and> fst (withSpan ''x'' (throwing (Plain VNull)) None empty_world) \<noteq> Throws (Plain VNull)
   \<and> span_calls (spans (snd (withSpan ''x'' (throwing (Plain VNull)) None empty_world)) ! 0) = []"
  by (simp add: withSpan_def throwing_def startActiveSpan_def empty_world_def
      catch_handler_def)

text \<open>
  C3 (for a pending promise the span is ended when the promise settles; on rejection
  status ERROR, the error recorded, the span ended, the same rejection propagated). The
  code at an operation that returns a pending promise which is then rejected with
  \<^verbatim>\<open>undefined\<close>: \<^verbatim>\<open>withSpan\<close> returns promise 2; after the rejection and two microtasks
  the queue is empty, the span has received no call at all, and promise 2 is rejected
  with a TypeError instead of \<^verbatim>\<open>undefined\<close>.
\<close>

theorem withSpan_reject_undefined_span_not_ended:
  "fst (withSpan ''x'' (returning_promise Pending) None empty_world) = Returns (PromiseRef 2)
   \<and> run_microtasks 2
        (settle 0 (Rejected (Plain VUndefined))
          (snd (withSpan ''x'' (returning_promise Pending) None empty_world))) =
      \<lparr>spans = [\<lparr>span_name = ''x'', span_calls = []\<rparr>],
       promises =
         [\<lparr>state = Rejected (Plain VUndefined), reactions = []\<rparr>,
          \<lparr>state = Rejected (Plain VUndefined), reactions = []\<rparr>,
          \<lparr>state = Rejected (Plain (VTypeError
              ''Cannot read properties of undefined (reading message)'')), reactions = []\<rparr>],
       jobs = []\<rparr>"
  by (simp add: withSpan_def returning_promise_def startActiveSpan_def empty_world_def
      promise_then_def promise_catch_def new_promise_def settle_def run_next_def
      numeral_2_eq_2 complete_derived_def catch_handler_def Let_def)

text \<open>
  C4: when the operation returns a plain (non-promise) value \<open>v\<close> and has not itself
  called anything on the span, \<^verbatim>\<open>withSpan\<close> returns \<open>v\<close> unchanged, and in the world it
  returns the span has received status OK and then \<^verbatim>\<open>end\<close>, once each, after its
  attributes; no promise and no microtask has been added, so nothing is left to happen
  later.
\<close>

theorem withSpan_plain_value:
  assumes "fn (entered name atts w) = (Returns (Plain v), w')"
      and "untouched (length (spans w)) (entered name atts w) w'"
  shows "withSpan name fn atts w =
           (Returns (Plain v),
            span_call (length (spans w)) End
              (span_call (length (spans w)) (SetStatus OK None) w'))
         \<and> spans (snd (withSpan name fn atts w)) ! length (spans w) =
             \<lparr>span_name = name,
              span_calls = attribute_calls atts @ [SetStatus OK None, End]\<rparr>
         \<and> promises (snd (withSpan name fn atts w)) = promises w'
         \<and> jobs (snd (withSpan name fn atts w)) = jobs w'"
  using assms
  by (simp add: withSpan_enters then_handler_def untouched_def entered_span)

text \<open>\<^verbatim>\<open>withSpan("x", () => 42)\<close> returns 42 and the span \<^verbatim>\<open>"x"\<close> has status OK.\<close>

theorem withSpan_plain_value_witness:
  "returning (Plain (VNum 42)) (entered ''x'' None empty_world) =
     (Returns (Plain (VNum 42)), entered ''x'' None empty_world)
   \<and> untouched (length (spans empty_world)) (entered ''x'' None empty_world)
       (entered ''x'' None empty_world)
   \<and> withSpan ''x'' (returning (Plain (VNum 42))) None empty_world =
       (Returns (Plain (VNum 42)),
        \<lparr>spans = [\<lparr>span_name = ''x'', span_calls = [SetStatus OK None, End]\<rparr>],
         promises = [], jobs = []\<rparr>)"
proof -
  have h1: "returning (Plain (VNum 42)) (entered ''x'' None empty_world) =
     (Returns (Plain (VNum 42)), entered ''x'' None empty_world)"
    by (simp add: returning_def)
  have h2: "untouched (length (spans empty_world)) (entered ''x'' None empty_world)
       (entered ''x'' None empty_world)"
    by (simp add: untouched_def entered_def empty_world_def)
  show ?thesis
    using h1 h2
      withSpan_plain_value [where fn = "returning (Plain (VNum 42))" and name = "''x''"
        and atts = None and w = empty_world and v = "VNum 42"
        and w' = "entered ''x'' None empty_world"]
    by (simp add: entered_def empty_world_def span_call_def)
qed

text \<open>
  C5, as stated (with a prefix the name is the prefix, a dot and the identifier), at the
  callable \<^verbatim>\<open>foo\<close> with the options \<^verbatim>\<open>{ prefix: "" }\<close>: the empty prefix is falsy, so
  the span name is \<^verbatim>\<open>"foo"\<close>, not \<^verbatim>\<open>".foo"\<close>.
\<close>

theorem spanName_empty_prefix_counterexample:
  "spanName foo_callable (Some \<lparr>prefix = Some [], attributes = None\<rparr>) = ''foo''
   \<and> spanName foo_callable (Some \<lparr>prefix = Some [], attributes = None\<rparr>)
       \<noteq> [] @ ''.'' @ fn_name foo_callable"
  by (simp add: spanName_def foo_callable_def or_else_def)

text \<open>
  C5, amended: with a non-empty prefix the span name is the prefix, a dot and the
  identifier; with no options, no prefix or an empty prefix it is the bare identifier;
  the identifier is the callable's name, or \<^verbatim>\<open>"anonymous"\<close> when the name is empty. The
  name depends on the callable's name and the prefix only, so the same name and prefix
  give the same span name. The traced function runs the callable's body under
  \<^verbatim>\<open>withSpan\<close> with that name.
\<close>

theorem spanName_derivation:
  "(p \<noteq> [] \<longrightarrow>
      spanName fn (Some \<lparr>prefix = Some p, attributes = a\<rparr>) =
        p @ ''.'' @ (if fn_name fn = [] then ''anonymous'' else fn_name fn))
   \<and> spanName fn (Some \<lparr>prefix = Some [], attributes = a\<rparr>) =
        (if fn_name fn = [] then ''anonymous'' else fn_name fn)
   \<and> spanName fn (Some \<lparr>prefix = None, attributes = a\<rparr>) =
        (if fn_name fn = [] then ''anonymous'' else fn_name fn)
   \<and> spanName fn None = (if fn_name fn = [] then ''anonymous'' else fn_name fn)
   \<and> (fn_name fn = fn_name fn' \<and> prefix opts = prefix opts' \<longrightarrow>
        spanName fn (Some opts) = spanName fn' (Some opts'))
   \<and> autoTrace fn options args w =
        withSpan (spanName fn options) (fn_body fn args)
          (case options of None \<Rightarrow> None | Some opts \<Rightarrow> attributes opts) w"
  by (simp add: spanName_def or_else_def autoTrace_def split: option.split)

theorem spanName_derivation_witness:
  "''api'' \<noteq> []
   \<and> spanName foo_callable (Some \<lparr>prefix = Some ''api'', attributes = None\<rparr>) = ''api.foo''
   \<and> spanName foo_callable None = ''foo''
   \<and> spanName (foo_callable\<lparr>fn_name := []\<rparr>) None = ''anonymous''
   \<and> fn_name foo_callable = fn_name (foo_callable\<lparr>fn_body := (\<lambda>args. throwing (Plain VNull))\<rparr>)
   \<and> spanName foo_callable (Some \<lparr>prefix = Some ''api'', attributes = None\<rparr>) =
       spanName (foo_callable\<lparr>fn_body := (\<lambda>args. throwing (Plain VNull))\<rparr>)
         (Some \<lparr>prefix = Some ''api'', attributes = Some []\<rparr>)"
  using spanName_derivation [where p = "''api''" and fn = foo_callable and a = None
      and fn' = "foo_callable\<lparr>fn_body := (\<lambda>args. throwing (Plain VNull))\<rparr>"
      and opts = "\<lparr>prefix = Some ''api'', attributes = None\<rparr>"
      and opts' = "\<lparr>prefix = Some ''api'', attributes = Some []\<rparr>"
      and options = None and args = "[]" and w = empty_world]
  by (simp add: foo_callable_def spanName_def or_else_def)

text \<open>
  C6: when the URL does not parse, \<^verbatim>\<open>api.call\<close> throws the parser's TypeError and the
  world is unchanged: no span is created and the operation, which the result does not
  depend on, is not invoked. When it parses with host name \<open>h\<close>, \<^verbatim>\<open>api.call\<close> is
  \<^verbatim>\<open>withSpan\<close> under the name \<^verbatim>\<open>"external.api.call"\<close> with the attributes
  \<^verbatim>\<open>http.method\<close> (the method, \<^verbatim>\<open>GET\<close> when none is passed), \<^verbatim>\<open>http.url\<close> (the URL) and
  \<^verbatim>\<open>net.peer.name\<close> (the parsed host name \<open>h\<close>).
\<close>

theorem api_call_url:
  "(hostname url = None \<longrightarrow>
      api_call hostname operation url method w =
        (Throws (Plain (VTypeError ''Invalid URL'')), w))
   \<and> (hostname url = Some h \<longrightarrow>
      api_call hostname operation url method w =
        withSpan ''external.api.call'' operation
          (Some [(''http.method'', AStr (case method of None \<Rightarrow> ''GET'' | Some m \<Rightarrow> m)),
                 (''http.url'', AStr url), (''net.peer.name'', AStr h)]) w)"
  by (simp add: api_call_def api_call_attributes_def)

theorem api_call_url_witness:
  "sample_hostname ''not a url'' = None
   \<and> api_call sample_hostname (returning (Plain (VNum 1))) ''not a url'' None empty_world =
        (Throws (Plain (VTypeError ''Invalid URL'')), empty_world)
   \<and> sample_hostname ''https://api.example.com/status'' = Some ''api.example.com''
   \<and> api_call sample_hostname (returning (Plain (VNum 1))) ''https://api.example.com/status''
        None empty_world =
        (Returns (Plain (VNum 1)),
         \<lparr>spans = [\<lparr>span_name = ''external.api.call'',
                    span_calls = [SetAttributes [(''http.method'', AStr ''GET''),
                        (''http.url'', AStr ''https://api.example.com/status''),
                        (''net.peer.name'', AStr ''api.example.com'')],
                      SetStatus OK None, End]\<rparr>],
          promises = [], jobs = []\<rparr>)"
  using api_call_url [of sample_hostname "''not a url''" "returning (Plain (VNum 1))" None
      empty_world "''api.example.com''"]
    api_call_url [of sample_hostname "''https://api.example.com/status''"
      "returning (Plain (VNum 1))" None empty_world "''api.example.com''"]
  by (simp add: sample_hostname_def withSpan_returning_plain attribute_calls_def)

text \<open>
  C7, as stated (a supplied statement string is always in the attribute set), at
  \<^verbatim>\<open>db.query(() => 1, "")\<close>: the empty statement is falsy, and the span \<^verbatim>\<open>"db.query"\<close>
  receives \<^verbatim>\<open>db.system\<close> only.
\<close>

theorem db_query_empty_statement_counterexample:
  "map_of (db_query_attributes (Some [])) ''db.statement'' \<noteq> Some (AStr [])
   \<and> snd (db_query (returning (Plain (VNum 1))) (Some []) empty_world) =
       \<lparr>spans = [\<lparr>span_name = ''db.query'',
                  span_calls = [SetAttributes [(''db.system'', AStr ''postgresql'')],
                                SetStatus OK None, End]\<rparr>],
        promises = [], jobs = []\<rparr>"
  by (simp add: db_query_attributes_def db_query_def withSpan_returning_plain
      attribute_calls_def)

text \<open>
  C7, amended: \<^verbatim>\<open>db.query\<close> is \<^verbatim>\<open>withSpan\<close> under the fixed name \<^verbatim>\<open>"db.query"\<close>, its
  attribute set always has \<^verbatim>\<open>db.system\<close>, and when a non-empty statement string is
  supplied it has that string under \<^verbatim>\<open>db.statement\<close> as well.
\<close>

theorem db_query_attributes_ok:
  "db_query operation statement w =
     withSpan ''db.query'' operation (Some (db_query_attributes statement)) w
   \<and> map_of (db_query_attributes statement) ''db.system'' = Some (AStr ''postgresql'')
   \<and> (s \<noteq> [] \<longrightarrow>
        db_query_attributes (Some s) =
          [(''db.system'', AStr ''postgresql''), (''db.statement'', AStr s)]
        \<and> map_of (db_query_attributes (Some s)) ''db.statement'' = Some (AStr s))
   \<and> (s \<noteq> [] \<longrightarrow>
        snd (db_query (returning (Plain v)) (Some s) empty_world) =
          \<lparr>spans = [\<lparr>span_name = ''db.query'',
                     span_calls = [SetAttributes [(''db.system'', AStr ''postgresql''),
                                                  (''db.statement'', AStr s)],
                                   SetStatus OK None, End]\<rparr>],
           promises = [], jobs = []\<rparr>)"
  by (simp add: db_query_attributes_def db_query_def withSpan_returning_plain
      attribute_calls_def split: option.split)

theorem db_query_attributes_ok_witness:
  "''SELECT 1'' \<noteq> []
   \<and> map_of (db_query_attributes (Some ''SELECT 1'')) ''db.system'' = Some (AStr ''postgresql'')
   \<and> map_of (db_query_attributes (Some ''SELECT 1'')) ''db.statement'' = Some (AStr ''SELECT 1'')
   \<and> snd (db_query (returning (Plain (VNum 1))) (Some ''SELECT 1'') empty_world) =
          \<lparr>spans = [\<lparr>span_name = ''db.query'',
                     span_calls = [SetAttributes [(''db.system'', AStr ''postgresql''),
                                                  (''db.statement'', AStr ''SELECT 1'')],
                                   SetStatus OK None, End]\<rparr>],
           promises = [], jobs = []\<rparr>"
  using db_query_attributes_ok [of "returning (Plain (VNum 1))" "Some ''SELECT 1''" empty_world
      "''SELECT 1''" "VNum 1"]
  by (simp add: db_query_attributes_def db_query_def withSpan_returning_plain
      attribute_calls_def)

text \<open>
  C8: in \<^verbatim>\<open>component.process\<close>, when the type is not supplied the attribute set has no
  key \<^verbatim>\<open>processing.type\<close>, when the record count is not supplied it has no key
  \<^verbatim>\<open>processing.record_count\<close>, and with neither it is empty; every pair in it is a key
  with the value the caller supplied, so no key carries a placeholder. That attribute
  set is the one passed to \<^verbatim>\<open>withSpan\<close>. Likewise \<^verbatim>\<open>db.query\<close> without a statement has no
  key \<^verbatim>\<open>db.statement\<close>.
\<close>

theorem process_omits_unsupplied:
  "map_of (process_attributes None recordCount) ''processing.type'' = None
   \<and> map_of (process_attributes type None) ''processing.record_count'' = None
   \<and> process_attributes None None = []
   \<and> set (process_attributes type recordCount) \<subseteq>
        (case type of None \<Rightarrow> {} | Some t \<Rightarrow> {(''processing.type'', AStr t)}) \<union>
        (case recordCount of None \<Rightarrow> {} | Some n \<Rightarrow> {(''processing.record_count'', ANum n)})
   \<and> component_process operation type recordCount w =
       withSpan ''data.processing'' operation (Some (process_attributes type recordCount)) w
   \<and> map_of (db_query_attributes None) ''db.statement'' = None"
  by (simp add: process_attributes_def component_process_def db_query_attributes_def
      split: option.split)

text \<open>
  C9: the result of the operation is treated as asynchronous exactly when it is a
  native Promise. For a result that is not one (a foreign thenable included), if the
  operation has not itself called anything on the span, \<^verbatim>\<open>withSpan\<close> returns the result
  unchanged and in the world it returns the span has received status OK and \<^verbatim>\<open>end\<close>;
  no reaction is attached to anything (promises and microtasks are as the operation
  left them), so the span is ended whatever the thenable does later. For a native
  Promise the span has received only its attributes when \<^verbatim>\<open>withSpan\<close> returns, and two
  promises have been derived.
\<close>

theorem withSpan_classifies_by_instanceof:
  assumes "fn (entered name atts w) = (Returns result, w')"
      and "untouched (length (spans w)) (entered name atts w) w'"
  shows "(\<not> instanceof_Promise result \<longrightarrow>
            withSpan name fn atts w =
              (Returns result,
               span_call (length (spans w)) End
                 (span_call (length (spans w)) (SetStatus OK None) w'))
            \<and> spans (snd (withSpan name fn atts w)) ! length (spans w) =
                \<lparr>span_name = name,
                 span_calls = attribute_calls atts @ [SetStatus OK None, End]\<rparr>
            \<and> promises (snd (withSpan name fn atts w)) = promises w'
            \<and> jobs (snd (withSpan name fn atts w)) = jobs w')
         \<and> (instanceof_Promise result \<longrightarrow>
            spans (snd (withSpan name fn atts w)) ! length (spans w) =
              \<lparr>span_name = name, span_calls = attribute_calls atts\<rparr>
            \<and> length (promises (snd (withSpan name fn atts w))) = length (promises w') + 2)"
  using assms
  by (cases result)
    (simp_all add: withSpan_enters then_handler_def untouched_def entered_span
      promise_catch_def split_beta Let_def)

theorem withSpan_classifies_by_instanceof_witness:
  "returning (Thenable 7) (entered ''x'' None empty_world) =
     (Returns (Thenable 7), entered ''x'' None empty_world)
   \<and> untouched (length (spans empty_world)) (entered ''x'' None empty_world)
       (entered ''x'' None empty_world)
   \<and> \<not> instanceof_Promise (Thenable 7)
   \<and> withSpan ''x'' (returning (Thenable 7)) None empty_world =
       (Returns (Thenable 7),
        \<lparr>spans = [\<lparr>span_name = ''x'', span_calls = [SetStatus OK None, End]\<rparr>],
         promises = [], jobs = []\<rparr>)
   \<and> returning_promise Pending (entered ''x'' None empty_world) =
       (Returns (PromiseRef 0),
        \<lparr>spans = [\<lparr>span_name = ''x'', span_calls = []\<rparr>],
         promises = [\<lparr>state = Pending, reactions = []\<rparr>], jobs = []\<rparr>)
   \<and> instanceof_Promise (PromiseRef 0)
   \<and> spans (snd (withSpan ''x'' (returning_promise Pending) None empty_world)) ! 0 =
       \<lparr>span_name = ''x'', span_calls = []\<rparr>"
proof -
  have h1: "returning (Thenable 7) (entered ''x'' None empty_world) =
     (Returns (Thenable 7), entered ''x'' None empty_world)"
    by (simp add: returning_def)
  have h2: "untouched (length (spans empty_world)) (entered ''x'' None empty_world)
       (entered ''x'' None empty_world)"
    by (simp add: untouched_def entered_def empty_world_def)
  have h3: "returning_promise Pending (entered ''x'' None empty_world) =
       (Returns (PromiseRef 0),
        \<lparr>spans = [\<lparr>span_name = ''x'', span_calls = []\<rparr>],
         promises = [\<lparr>state = Pending, reactions = []\<rparr>], jobs = []\<rparr>)"
    by (simp add: returning_promise_def new_promise_def entered_def empty_world_def)
  have h4: "untouched (length (spans empty_world)) (entered ''x'' None empty_world)
        \<lparr>spans = [\<lparr>span_name = ''x'', span_calls = []\<rparr>],
         promises = [\<lparr>state = Pending, reactions = []\<rparr>], jobs = []\<rparr>"
    by (simp add: untouched_def entered_def empty_world_def)
  show ?thesis
    using h1 h2 h3 h4
      withSpan_classifies_by_instanceof [where fn = "returning (Thenable 7)" and name = "''x''"
        and atts = None and w = empty_world and result = "Thenable 7"
        and w' = "entered ''x'' None empty_world"]
      withSpan_classifies_by_instanceof [where fn = "returning_promise Pending"
        and name = "''x''" and atts = None and w = empty_world and result = "PromiseRef 0"
        and w' = "\<lparr>spans = [\<lparr>span_name = ''x'', span_calls = []\<rparr>],
         promises = [\<lparr>state = Pending, reactions = []\<rparr>], jobs = []\<rparr>"]
    by (simp add: entered_def empty_world_def span_call_def attribute_calls_def)
qed

text \<open>
  C10: the two optional parameters of \<^verbatim>\<open>component.process\<close> are filtered by different
  tests. The record count is tested with \<^verbatim>\<open>recordCount !== undefined\<close>: every supplied
  count, 0 included, is kept under \<^verbatim>\<open>processing.record_count\<close>, and only an absent
  count is dropped. The type is tested for truthiness: every non-empty type is kept
  under \<^verbatim>\<open>processing.type\<close>, and the empty string is dropped like an absent type. So
  with the type \<^verbatim>\<open>""\<close> and the count 0 the attribute set is exactly
  \<^verbatim>\<open>{ 'processing.record_count': 0 }\<close>, with a non-empty type and a count it has both
  keys in that order, and that attribute set is what the span receives.
\<close>

theorem process_zero_count_kept_empty_type_dropped:
  "process_attributes (Some []) (Some 0) = [(''processing.record_count'', ANum 0)]
   \<and> map_of (process_attributes type (Some 0)) ''processing.record_count'' = Some (ANum 0)
   \<and> map_of (process_attributes (Some []) recordCount) ''processing.type'' = None
   \<and> component_process operation (Some []) (Some 0) w =
       withSpan ''data.processing'' operation (Some [(''processing.record_count'', ANum 0)]) w
   \<and> snd (component_process (returning (Plain v)) (Some []) (Some 0) empty_world) =
       \<lparr>spans = [\<lparr>span_name = ''data.processing'',
                  span_calls = [SetAttributes [(''processing.record_count'', ANum 0)],
                                SetStatus OK None, End]\<rparr>],
        promises = [], jobs = []\<rparr>
   \<and> map_of (process_attributes type (Some n)) ''processing.record_count'' = Some (ANum n)
   \<and> map_of (process_attributes type None) ''processing.record_count'' = None
   \<and> (t \<noteq> [] \<longrightarrow>
        map_of (process_attributes (Some t) recordCount) ''processing.type'' = Some (AStr t))
   \<and> map_of (process_attributes None recordCount) ''processing.type'' = None
   \<and> process_attributes (Some []) (Some n) = [(''processing.record_count'', ANum n)]
   \<and> (t \<noteq> [] \<longrightarrow>
        process_attributes (Some t) (Some n) =
          [(''processing.type'', AStr t), (''processing.record_count'', ANum n)]
        \<and> process_attributes (Some t) None = [(''processing.type'', AStr t)])
   \<and> (t \<noteq> [] \<longrightarrow>
        snd (component_process (returning (Plain v)) (Some t) (Some n) empty_world) =
          \<lparr>spans = [\<lparr>span_name = ''data.processing'',
                     span_calls = [SetAttributes [(''processing.type'', AStr t),
                                                  (''processing.record_count'', ANum n)],
                                   SetStatus OK None, End]\<rparr>],
           promises = [], jobs = []\<rparr>)
   \<and> component_process operation type recordCount w =
       withSpan ''data.processing'' operation (Some (process_attributes type recordCount)) w"
  by (simp add: process_attributes_def component_process_def withSpan_returning_plain
      attribute_calls_def split: option.split)

text \<open>
  The calls the components make: \<^verbatim>\<open>component.process(op, 'merge', 2)\<close> and
  \<^verbatim>\<open>component.process(op, 'transform', n)\<close>, here with \<open>n = 3\<close>.
\<close>

theorem process_zero_count_kept_empty_type_dropped_witness:
  "''merge'' \<noteq> []
   \<and> process_attributes (Some ''merge'') (Some 2) =
       [(''processing.type'', AStr ''merge''), (''processing.record_count'', ANum 2)]
   \<and> map_of (process_attributes (Some ''merge'') (Some 2)) ''processing.type'' =
       Some (AStr ''merge'')
   \<and> map_of (process_attributes (Some ''merge'') (Some 2)) ''processing.record_count'' =
       Some (ANum 2)
   \<and> snd (component_process (returning (Plain (VObject 0))) (Some ''merge'') (Some 2)
         empty_world) =
       \<lparr>spans = [\<lparr>span_name = ''data.processing'',
                  span_calls = [SetAttributes [(''processing.type'', AStr ''merge''),
                                               (''processing.record_count'', ANum 2)],
                                SetStatus OK None, End]\<rparr>],
        promises = [], jobs = []\<rparr>
   \<and> ''transform'' \<noteq> []
   \<and> process_attributes (Some ''transform'') (Some 3) =
       [(''processing.type'', AStr ''transform''), (''processing.record_count'', ANum 3)]
   \<and> process_attributes (Some ''transform'') None = [(''processing.type'', AStr ''transform'')]"
  using process_zero_count_kept_empty_type_dropped [where type = "Some ''merge''"
      and recordCount = "Some 2" and operation = "returning (Plain (VObject 0))"
      and w = empty_world and v = "VObject 0" and n = 2 and t = "''merge''"]
    process_zero_count_kept_empty_type_dropped [where type = "Some ''transform''"
      and recordCount = "Some 3" and operation = "returning (Plain (VObject 0))"
      and w = empty_world and v = "VObject 0" and n = 3 and t = "''transform''"]
  by (simp add: process_attributes_def component_process_def withSpan_returning_plain
      attribute_calls_def)

end
